theory Spec2Isabelle
  imports Complex_Main "HOL-Library.Sublist" "HOL-Library.Multiset"
begin

section \<open>Product analysis: the per-branch aggregation and ranking pipeline\<close>

text \<open>
  A shallow embedding of \<^verbatim>\<open>templates/js/product-analysis.js\<close>.
  JavaScript numbers are modelled as exact rationals: the rounding of IEEE doubles, NaN and
  the infinities are outside the model. A numeric field that is missing (or \<^verbatim>\<open>null\<close>)
  in a row object is \<open>None\<close>. Strings are lists of characters; string equality is
  exact, as \<^verbatim>\<open>===\<close> is. What the code reads from the DOM (the selected branch, the
  count, the sort key, whether a container element exists) is a parameter of the model; what
  it writes into the DOM is the value returned.
\<close>

subsection \<open>Rows of the uploaded data\<close>

record item =
  Branch :: string
  Menu :: string
  Total :: "rat option"
  Qty :: "rat option"
  Margin :: "rat option"
  COGS_Total :: "rat option"

text \<open>\<^verbatim>\<open>x || 0\<close> on a numeric field: a missing value counts as 0.\<close>

definition or0 :: "rat option \<Rightarrow> rat" where
  "or0 v = (case v of None \<Rightarrow> 0 | Some x \<Rightarrow> x)"

subsection \<open>The accumulator object \<^verbatim>\<open>productStats\<close>\<close>

record productStat =
  Menu :: string
  Total :: rat
  Qty :: rat
  Margin :: rat
  branch :: string

record product = productStat +
  Margin_Percentage :: rat
  Avg_Price :: rat

text \<open>
  \<^verbatim>\<open>productStats\<close> is a plain object \<^verbatim>\<open>{}\<close>. Its own properties are kept as an
  association list in the order of their creation. Its prototype is
  \<^verbatim>\<open>Object.prototype\<close>, so a read \<^verbatim>\<open>productStats[k]\<close> of a key that is not an own
  property finds the inherited property when \<open>k\<close> is one of the names below; each of them
  is a function or an object, hence truthy.
\<close>

type_synonym stats = "(string \<times> productStat) list"

definition Object_prototype_keys :: "string list" where
  "Object_prototype_keys =
    [''constructor'', ''__defineGetter__'', ''__defineSetter__'', ''hasOwnProperty'',
     ''__lookupGetter__'', ''__lookupSetter__'', ''isPrototypeOf'', ''propertyIsEnumerable'',
     ''toString'', ''valueOf'', ''__proto__'', ''toLocaleString'']"

definition has_own :: "stats \<Rightarrow> string \<Rightarrow> bool" where
  "has_own st k \<longleftrightarrow> k \<in> set (map fst st)"

text \<open>Truthiness of \<^verbatim>\<open>productStats[k]\<close>: an own entry is an object; so is an inherited one.\<close>

definition truthy_prop :: "stats \<Rightarrow> string \<Rightarrow> bool" where
  "truthy_prop st k \<longleftrightarrow> has_own st k \<or> k \<in> set Object_prototype_keys"

text \<open>
  \<^verbatim>\<open>productStats[k].Total += ...\<close> and its two siblings. When \<open>k\<close> is an own property
  the entry is updated. When \<open>k\<close> is inherited, the three writes land on the inherited
  object (\<^verbatim>\<open>Object.prototype\<close> or one of its functions) and the own properties of
  \<^verbatim>\<open>productStats\<close> stay as they are.
\<close>

definition accumulate :: "item \<Rightarrow> productStat \<Rightarrow> productStat" where
  "accumulate it s =
     s\<lparr>Total := Total s + or0 (item.Total it),
       Qty := Qty s + or0 (item.Qty it),
       Margin := Margin s + or0 (item.Margin it)\<rparr>"

fun update_own :: "string \<Rightarrow> (productStat \<Rightarrow> productStat) \<Rightarrow> stats \<Rightarrow> stats" where
  "update_own k f [] = []"
| "update_own k f ((k', v) # st) =
     (if k' = k then (k', f v) # st else (k', v) # update_own k f st)"

definition forEach_step :: "string \<Rightarrow> stats \<Rightarrow> item \<Rightarrow> stats" where
  "forEach_step selectedBranch st it =
     (let st1 = (if \<not> truthy_prop st (item.Menu it)
                 then st @ [(item.Menu it,
                        \<lparr>Menu = item.Menu it, Total = 0, Qty = 0, Margin = 0,
                         branch = selectedBranch\<rparr>)]
                 else st)
      in update_own (item.Menu it) (accumulate it) st1)"

definition productStats :: "string \<Rightarrow> item list \<Rightarrow> stats" where
  "productStats selectedBranch branchData = foldl (forEach_step selectedBranch) [] branchData"

subsection \<open>\<^verbatim>\<open>Object.values\<close>: the enumeration order of own properties\<close>

text \<open>
  Own string keys are enumerated with the array indices first (the canonical decimal
  numerals of the integers from 0 to \<open>2^32 - 2\<close>), in ascending numeric order, and then
  every other key in the order of creation.
\<close>

definition is_digit :: "char \<Rightarrow> bool" where
  "is_digit c \<longleftrightarrow> c \<in> set ''0123456789''"

definition digit_val :: "char \<Rightarrow> nat" where
  "digit_val c = of_char c - 48"

definition decimal_val :: "string \<Rightarrow> nat" where
  "decimal_val s = foldl (\<lambda>n c. 10 * n + digit_val c) 0 s"

definition is_array_index :: "string \<Rightarrow> bool" where
  "is_array_index s \<longleftrightarrow>
     s \<noteq> [] \<and> list_all is_digit s \<and> (s = ''0'' \<or> hd s \<noteq> CHR ''0'')
     \<and> decimal_val s < 2 ^ 32 - 1"

definition own_keys_order :: "stats \<Rightarrow> stats" where
  "own_keys_order st =
     sort_key (\<lambda>e. decimal_val (fst e)) (filter (\<lambda>e. is_array_index (fst e)) st)
     @ filter (\<lambda>e. \<not> is_array_index (fst e)) st"

definition Object_values :: "stats \<Rightarrow> productStat list" where
  "Object_values st = map snd (own_keys_order st)"

subsection \<open>Derived percentages\<close>

definition with_percentages :: "productStat \<Rightarrow> product" where
  "with_percentages p =
     \<lparr>Menu = Menu p, Total = Total p, Qty = Qty p, Margin = Margin p, branch = branch p,
      Margin_Percentage = (if Total p > 0 then Margin p / Total p * 100 else 0),
      Avg_Price = (if Qty p > 0 then Total p / Qty p else 0)\<rparr>"

definition products :: "string \<Rightarrow> item list \<Rightarrow> product list" where
  "products selectedBranch branchData =
     map with_percentages (Object_values (productStats selectedBranch branchData))"

subsection \<open>Sorting and truncation\<close>

definition sortField :: "string \<Rightarrow> product \<Rightarrow> rat" where
  "sortField sortBy =
     (if sortBy = ''quantity'' then Qty
      else if sortBy = ''margin'' then Margin_Percentage
      else Total)"

text \<open>
  \<^verbatim>\<open>Array.prototype.sort\<close> with a comparator is a stable sort; it is modelled by
  insertion from the right, an element going before the first element it does not
  compare greater than.
\<close>

fun insert_by :: "('a \<Rightarrow> 'a \<Rightarrow> rat) \<Rightarrow> 'a \<Rightarrow> 'a list \<Rightarrow> 'a list" where
  "insert_by cmp x [] = [x]"
| "insert_by cmp x (y # ys) =
     (if cmp x y \<le> 0 then x # y # ys else y # insert_by cmp x ys)"

definition array_sort :: "('a \<Rightarrow> 'a \<Rightarrow> rat) \<Rightarrow> 'a list \<Rightarrow> 'a list" where
  "array_sort cmp xs = foldr (insert_by cmp) xs []"

text \<open>
  \<^verbatim>\<open>parseInt(s)\<close> without a radix: leading white space is skipped, a sign is read, a
  prefix \<^verbatim>\<open>0x\<close> selects radix 16, and the longest run of digits is converted;
  \<open>None\<close> is NaN. Only the ASCII white space is modelled.
\<close>

definition is_white :: "char \<Rightarrow> bool" where
  "is_white c \<longleftrightarrow> c \<in> set [CHR '' '', CHR 0x09, CHR 0x0A, CHR 0x0B, CHR 0x0C, CHR 0x0D]"

definition hex_val :: "char \<Rightarrow> nat option" where
  "hex_val c =
     (if is_digit c then Some (of_char c - 48)
      else if c \<in> set ''abcdef'' then Some (of_char c - 87)
      else if c \<in> set ''ABCDEF'' then Some (of_char c - 55)
      else None)"

definition radix_val :: "nat \<Rightarrow> char \<Rightarrow> nat option" where
  "radix_val R c = (if R = 16 then hex_val c else if is_digit c then Some (digit_val c) else None)"

definition parseInt :: "string \<Rightarrow> int option" where
  "parseInt s =
     (let s1 = dropWhile is_white s;
          sign = (if s1 \<noteq> [] \<and> hd s1 = CHR ''-'' then - 1 else (1::int));
          s2 = (if s1 \<noteq> [] \<and> (hd s1 = CHR ''+'' \<or> hd s1 = CHR ''-'') then tl s1 else s1);
          hex = (take 2 s2 = ''0x'' \<or> take 2 s2 = ''0X'');
          R = (if hex then 16 else 10);
          s3 = (if hex then drop 2 s2 else s2);
          Z = takeWhile (\<lambda>c. radix_val R c \<noteq> None) s3
      in if Z = [] then None
         else Some (sign * int (foldl (\<lambda>n c. R * n + the (radix_val R c)) 0 Z)))"

text \<open>\<^verbatim>\<open>xs.slice(0, e)\<close>: NaN counts as 0, a negative end counts from the back.\<close>

definition slice0 :: "'a list \<Rightarrow> int option \<Rightarrow> 'a list" where
  "slice0 xs e =
     (let len = int (length xs);
          rel = (case e of None \<Rightarrow> 0 | Some n \<Rightarrow> n);
          final = (if rel < 0 then max (len + rel) 0 else min rel len)
      in take (nat final) xs)"

definition topProducts :: "product list \<Rightarrow> string \<Rightarrow> string \<Rightarrow> product list" where
  "topProducts prods sortBy count' =
     slice0 (array_sort (\<lambda>a b. sortField sortBy b - sortField sortBy a) prods)
            (if count' = ''all'' then Some (int (length prods)) else parseInt count')"

subsection \<open>Rows of the Top Performers table\<close>

definition rankBadge :: "nat \<Rightarrow> string" where
  "rankBadge index =
     (if index < 3 then ''status-excellent''
      else if index < 10 then ''status-good''
      else ''status-fair'')"

definition marginBadge :: "rat \<Rightarrow> string" where
  "marginBadge mp =
     (if mp > 30 then ''status-excellent''
      else if mp > 20 then ''status-good''
      else if mp > 10 then ''status-fair''
      else ''status-poor'')"

text \<open>The pair \<^verbatim>\<open>(statusBadge, statusText)\<close> of a row, from its 0-based index.\<close>

definition status :: "nat \<Rightarrow> rat \<Rightarrow> string \<times> string" where
  "status index mp =
     (if index < 3 \<and> mp > 20 then (''status-excellent'', ''Star Product'')
      else if index < 10 \<and> mp > 15 then (''status-good'', ''Good Performer'')
      else if mp > 10 then (''status-fair'', ''Average'')
      else (''status-poor'', ''Needs Review''))"

definition truncate_name :: "nat \<Rightarrow> string \<Rightarrow> string" where
  "truncate_name n s = (if length s > n then take n s @ ''...'' else s)"

record row =
  rank :: nat
  rank_badge :: string
  name :: string
  revenue :: rat
  quantity :: rat
  margin_pct :: rat
  margin_badge :: string
  avg_price :: rat
  status_badge :: string
  status_text :: string

definition make_row :: "nat \<times> product \<Rightarrow> row" where
  "make_row ip =
     (case ip of (index, p) \<Rightarrow>
       \<lparr>rank = index + 1,
        rank_badge = rankBadge index,
        name = truncate_name 50 (Menu p),
        revenue = Total p,
        quantity = Qty p,
        margin_pct = Margin_Percentage p,
        margin_badge = marginBadge (Margin_Percentage p),
        avg_price = Avg_Price p,
        status_badge = fst (status index (Margin_Percentage p)),
        status_text = snd (status index (Margin_Percentage p))\<rparr>)"

definition table_rows :: "product list \<Rightarrow> row list" where
  "table_rows tops = map make_row (enumerate 0 tops)"

subsection \<open>The summary box\<close>

datatype summary_view =
    SummaryAbsent
  | SummaryPickBranch
  | SummaryNoProducts
  | Summary (top3: "string list") (sortText: string) (totalRevenue: rat) (avgMargin: rat)
            (showing: nat) (ofTotal: nat)

definition updateTopPerformersSummary ::
  "bool \<Rightarrow> product list \<Rightarrow> string \<Rightarrow> string \<Rightarrow> nat \<Rightarrow> summary_view" where
  "updateTopPerformersSummary hasSummaryContent tops selectedBranch sortBy totalProducts =
     (if \<not> hasSummaryContent \<or> selectedBranch = []
      then (if hasSummaryContent then SummaryPickBranch else SummaryAbsent)
      else if length tops = 0 then SummaryNoProducts
      else Summary
             (map (\<lambda>p. take 35 (Menu p) @ (if length (Menu p) > 35 then ''...'' else []))
                  (take 3 tops))
             (if sortBy = ''revenue'' then ''revenue''
              else if sortBy = ''quantity'' then ''quantity'' else ''margin'')
             (foldl (\<lambda>sum p. sum + Total p) 0 tops)
             (foldl (\<lambda>sum p. sum + Margin_Percentage p) 0 tops / of_nat (length tops))
             (length tops)
             (if totalProducts \<noteq> 0 then totalProducts else length tops))"

subsection \<open>\<^verbatim>\<open>updateTopPerformersTable\<close>\<close>

datatype table_view =
    TableUnchanged
  | TableSelectBranch
  | TableNoData string
  | Table (rows: "row list") (shown: nat) (total: nat) (summary: summary_view)

definition branchData :: "item list \<Rightarrow> string \<Rightarrow> item list" where
  "branchData allData selectedBranch = filter (\<lambda>it. Branch it = selectedBranch) allData"

definition updateTopPerformersTable ::
  "bool \<Rightarrow> bool \<Rightarrow> string \<Rightarrow> string \<Rightarrow> string \<Rightarrow> item list \<Rightarrow> table_view" where
  "updateTopPerformersTable hasTableContainer hasSummaryContent selectedBranch count' sortBy allData =
     (if \<not> hasTableContainer \<or> length allData = 0 then TableUnchanged
      else if selectedBranch = [] then TableSelectBranch
      else let bd = branchData allData selectedBranch in
        if length bd = 0 then TableNoData selectedBranch
        else let prods = products selectedBranch bd;
                 tops = topProducts prods sortBy count'
             in Table (table_rows tops) (length tops) (length prods)
                  (updateTopPerformersSummary hasSummaryContent tops selectedBranch sortBy
                     (length prods)))"

subsection \<open>The product detail view\<close>

record component =
  label :: string
  val :: rat
  color :: string

datatype chart_view =
    ChartNoData
  | ChartInvalidData
  | Chart "component list"

text \<open>
  \<^verbatim>\<open>createEnhancedProductChart\<close>: the result is what is handed to the plotting library
  (labels, values and colours of the slices) or one of the two messages. The product and
  branch names only feed the title of the layout and are left out.
\<close>

definition createEnhancedProductChart :: "item list \<Rightarrow> chart_view" where
  "createEnhancedProductChart productData =
     (if length productData = 0 then ChartNoData
      else let totalRevenue = foldl (\<lambda>sum it. sum + or0 (item.Total it)) 0 productData;
               totalMargin = foldl (\<lambda>sum it. sum + or0 (item.Margin it)) 0 productData;
               totalCogs = foldl (\<lambda>sum it. sum + or0 (COGS_Total it)) 0 productData;
               netRevenue = totalRevenue - totalCogs;
               components = filter (\<lambda>c. val c > 0)
                 [\<lparr>label = ''Net Revenue'', val = netRevenue, color = ''#2E8B57''\<rparr>,
                  \<lparr>label = ''Margin (Profit)'', val = totalMargin, color = ''#4CAF50''\<rparr>,
                  \<lparr>label = ''COGS (Cost)'', val = totalCogs, color = ''#FF6B6B''\<rparr>]
           in if length components = 0 then ChartInvalidData else Chart components)"

datatype detail_view =
    DetailUnchanged
  | Detail (d_totalRevenue: rat) (d_totalQty: rat) (d_avgMargin: rat) (d_records: nat)
           (d_chart: chart_view)

definition showProductDetails :: "string \<Rightarrow> string \<Rightarrow> item list \<Rightarrow> detail_view" where
  "showProductDetails productName selectedBranch allData =
     (if length allData = 0 \<or> selectedBranch = [] then DetailUnchanged
      else let productData =
                 filter (\<lambda>it. item.Menu it = productName \<and> Branch it = selectedBranch) allData
           in if length productData = 0 then DetailUnchanged
              else let totalRevenue = foldl (\<lambda>sum it. sum + or0 (item.Total it)) 0 productData;
                       totalQty = foldl (\<lambda>sum it. sum + or0 (item.Qty it)) 0 productData;
                       totalMargin = foldl (\<lambda>sum it. sum + or0 (item.Margin it)) 0 productData;
                       avgMargin = (if totalRevenue > 0 then totalMargin / totalRevenue * 100 else 0)
                   in Detail totalRevenue totalQty avgMargin (length productData)
                        (createEnhancedProductChart productData))"

section \<open>The specification's notions\<close>


text \<open>
  The sort-key mapping as the specification words it: revenue is the summed total, quantity
  the summed quantity, margin the margin percentage; any other key is not a sort key.
\<close>

definition sort_key_spec :: "string \<Rightarrow> (product \<Rightarrow> rat) option" where
  "sort_key_spec sortBy =
     (if sortBy = ''revenue'' then Some Total
      else if sortBy = ''quantity'' then Some Qty
      else if sortBy = ''margin'' then Some Margin_Percentage
      else None)"

text \<open>The distinct elements of a sequence, each at the place of its first occurrence.\<close>

definition first_seen :: "'a list \<Rightarrow> 'a list" where
  "first_seen xs = rev (remdups (rev xs))"

section \<open>Sample data\<close>

definition sale :: "string \<Rightarrow> string \<Rightarrow> rat \<Rightarrow> rat \<Rightarrow> rat \<Rightarrow> rat \<Rightarrow> item" where
  "sale b m q t g c =
     \<lparr>Branch = b, Menu = m, Total = Some t, Qty = Some q, Margin = Some g,
      COGS_Total = Some c\<rparr>"

text \<open>The scenario of the specification: two sales of X in branch A, one in branch B.\<close>

definition ex_scenario :: "item list" where
  "ex_scenario =
     [sale ''A'' ''X'' 2 100 20 80, sale ''A'' ''X'' 3 150 30 120, sale ''B'' ''X'' 1 40 4 36]"

text \<open>Two products in branch A; Y earns more than X and is seen later.\<close>

definition ex_menu :: "item list" where
  "ex_menu =
     [sale ''A'' ''X'' 2 100 25 75, sale ''A'' ''Y'' 1 200 60 140, sale ''B'' ''Z'' 1 40 4 36]"

text \<open>A product whose summed revenue is negative (refunds exceed sales).\<close>

definition ex_refund :: "item list" where
  "ex_refund = [sale ''A'' ''X'' 2 (- 100) (- 20) 0]"

text \<open>A product sold at a loss: revenue 1000, cost of goods 1200, margin -200.\<close>

definition ex_loss :: "item list" where
  "ex_loss = [sale ''A'' ''X'' 1 1000 (- 200) 1200]"

text \<open>Branch names that differ only in case.\<close>

definition ex_branches :: "item list" where
  "ex_branches =
     [sale ''A'' ''X'' 2 100 20 80, sale ''a'' ''X'' 1 40 4 36, sale ''B'' ''X'' 1 40 4 36]"

text \<open>Two products with numerals as names and the same revenue; "2" is seen before "1".\<close>

definition ex_numeric :: "item list" where
  "ex_numeric = [sale ''A'' ''2'' 1 100 10 90, sale ''A'' ''1'' 1 100 10 90]"

text \<open>Names that are array indices among names that are not; "Nasi" is sold twice.\<close>

definition ex_mixed :: "item list" where
  "ex_mixed =
     [sale ''A'' ''Nasi'' 1 50 5 45, sale ''A'' ''10'' 1 20 2 18, sale ''A'' ''Teh'' 1 10 1 9,
      sale ''A'' ''9'' 1 30 3 27, sale ''A'' ''Nasi'' 1 50 5 45]"

text \<open>A product named like a property that every object inherits.\<close>

definition ex_inherited :: "item list" where
  "ex_inherited = [sale ''A'' ''Nasi'' 1 50 5 45, sale ''A'' ''constructor'' 1 100 10 90]"

text \<open>Two products that earn the same, and a third, seen last, that earns more.\<close>

definition ex_ties :: "item list" where
  "ex_ties =
     [sale ''A'' ''P'' 1 100 10 90, sale ''A'' ''Q'' 2 100 30 70, sale ''A'' ''R'' 1 300 30 270]"

definition ex_P :: product where
  "ex_P = \<lparr>Menu = ''P'', Total = 100, Qty = 1, Margin = 10, branch = ''A'',
           Margin_Percentage = 10, Avg_Price = 100\<rparr>"

definition ex_Q :: product where
  "ex_Q = \<lparr>Menu = ''Q'', Total = 100, Qty = 2, Margin = 30, branch = ''A'',
           Margin_Percentage = 30, Avg_Price = 50\<rparr>"

definition ex_R :: product where
  "ex_R = \<lparr>Menu = ''R'', Total = 300, Qty = 1, Margin = 30, branch = ''A'',
           Margin_Percentage = 10, Avg_Price = 300\<rparr>"

text \<open>
  Three products whose order of first sale (Cendol, Ayam, Bakso) differs from their order by
  revenue (Ayam, Bakso, Cendol), by quantity (Bakso, Cendol, Ayam) and by margin percentage
  (Cendol, Bakso, Ayam).
\<close>

definition ex_three :: "item list" where
  "ex_three =
     [sale ''A'' ''Cendol'' 2 100 30 70, sale ''A'' ''Ayam'' 1 300 30 270,
      sale ''A'' ''Bakso'' 3 200 40 160]"

section \<open>Evaluation\<close>

lemmas pipeline_defs =
  updateTopPerformersTable_def branchData_def products_def productStats_def forEach_step_def
  truthy_prop_def has_own_def Object_prototype_keys_def Object_values_def own_keys_order_def
  is_array_index_def is_digit_def decimal_val_def digit_val_def with_percentages_def
  accumulate_def or0_def topProducts_def array_sort_def sortField_def parseInt_def is_white_def
  radix_val_def hex_val_def slice0_def table_rows_def make_row_def status_def rankBadge_def
  marginBadge_def truncate_name_def updateTopPerformersSummary_def Let_def sale_def

section \<open>Auxiliary facts\<close>

lemma count_list_filter:
  "count_list (filter P xs) x = (if P x then count_list xs x else 0)"
  by (induction xs) auto

lemma foldl_add_sum_list:
  "foldl (\<lambda>sum x. sum + f x) a xs = (a::rat) + sum_list (map f xs)"
  by (induction xs arbitrary: a) (simp_all add: add.assoc)



lemma length_table_rows: "length (table_rows tops) = length tops"
  by (simp add: table_rows_def)

lemma map_make_row_enumerate:
  "map (revenue \<circ> make_row) (enumerate n tops) = map Total tops"
  "map (margin_pct \<circ> make_row) (enumerate n tops) = map Margin_Percentage tops"
  by (induction tops arbitrary: n) (simp_all add: make_row_def)

lemma table_rows_columns:
  "map revenue (table_rows tops) = map Total tops"
  "map margin_pct (table_rows tops) = map Margin_Percentage tops"
  using map_make_row_enumerate [of 0 tops] by (simp_all add: table_rows_def)

subsection \<open>The comparator sort is the stable sort by the negated key\<close>

lemma insert_by_insort_key:
  "insert_by (\<lambda>a b. f b - f a) x ys = insort_key (\<lambda>p. - f p) x ys"
  by (induction ys) simp_all

lemma array_sort_sort_key:
  "array_sort (\<lambda>a b. f b - f a) xs = sort_key (\<lambda>p. - f p) xs"
  by (induction xs) (simp_all add: array_sort_def insert_by_insort_key)

lemma array_sort_desc:
  "sorted_wrt (\<lambda>a b. f a \<ge> f b) (array_sort (\<lambda>a b. f b - f a) xs)"
proof -
  have "sorted (map (\<lambda>p. - f p) (sort_key (\<lambda>p. - f p) xs))"
    by (rule sorted_sort_key)
  then show ?thesis
    by (simp add: array_sort_sort_key sorted_wrt_map)
qed

lemma length_array_sort: "length (array_sort (\<lambda>a b. f b - f a) xs) = length xs"
  by (simp add: array_sort_sort_key)

lemma mset_array_sort: "mset (array_sort (\<lambda>a b. f b - f a) xs) = mset xs"
  by (simp add: array_sort_sort_key)

lemma parseInt_all: "parseInt ''all'' = None"
  by (simp add: parseInt_def is_white_def radix_val_def is_digit_def Let_def)

lemma slice0_nat: "slice0 xs (Some (int k)) = take k xs"
  by (simp add: slice0_def Let_def min_def)

lemma sorted_wrt_slice0: "sorted_wrt R xs \<Longrightarrow> sorted_wrt R (slice0 xs e)"
  by (simp add: slice0_def Let_def sorted_wrt_take)

subsection \<open>The chosen field and the entries left out\<close>

lemma sortField_spec: "sort_key_spec sortBy = Some key \<Longrightarrow> sortField sortBy = key"
  by (auto simp: sort_key_spec_def sortField_def split: if_splits)

lemma sortField_unknown: "sort_key_spec sortBy = None \<Longrightarrow> sortField sortBy = Total"
  by (auto simp: sort_key_spec_def sortField_def split: if_splits)

lemma slice0_take: "\<exists>n. slice0 xs e = take n xs"
  by (auto simp: slice0_def Let_def)

lemma mset_minus_take: "mset xs - mset (take n xs) = mset (drop n xs)"
proof -
  have "mset xs = mset (take n xs) + mset (drop n xs)"
    by (simp add: union_code)
  then show ?thesis by simp
qed

lemma take_dominates:
  assumes "sorted_wrt (\<lambda>a b. f a \<ge> f b) xs"
    and "x \<in> set (take n xs)" and "y \<in># mset xs - mset (take n xs)"
  shows "(f y :: rat) \<le> f x"
proof -
  from assms(1) have "sorted_wrt (\<lambda>a b. f a \<ge> f b) (take n xs @ drop n xs)" by simp
  then have "\<forall>a \<in> set (take n xs). \<forall>b \<in> set (drop n xs). f a \<ge> f b"
    by (simp only: sorted_wrt_append) blast
  moreover from assms(3) have "y \<in> set (drop n xs)"
    by (simp add: mset_minus_take)
  ultimately show ?thesis using assms(2) by blast
qed

lemma topProducts_dominates:
  assumes "x \<in> set (topProducts prods sortBy count')"
    and "y \<in># mset prods - mset (topProducts prods sortBy count')"
  shows "sortField sortBy y \<le> sortField sortBy x"
proof -
  let ?S = "array_sort (\<lambda>a b. sortField sortBy b - sortField sortBy a) prods"
  obtain n where n: "topProducts prods sortBy count' = take n ?S"
    unfolding topProducts_def using slice0_take by blast
  have "mset prods = mset ?S" by (simp add: mset_array_sort)
  with assms n have "x \<in> set (take n ?S)" and "y \<in># mset ?S - mset (take n ?S)"
    by simp_all
  with array_sort_desc [of "sortField sortBy" prods] show ?thesis
    by (rule take_dominates)
qed

lemma mset_topProducts: "mset (topProducts prods sortBy count') \<subseteq># mset prods"
proof -
  let ?S = "array_sort (\<lambda>a b. sortField sortBy b - sortField sortBy a) prods"
  obtain n where n: "topProducts prods sortBy count' = take n ?S"
    unfolding topProducts_def using slice0_take by blast
  have "mset (take n ?S) \<subseteq># mset (take n ?S) + mset (drop n ?S)" by simp
  then have "mset (take n ?S) \<subseteq># mset ?S" by (simp add: union_code)
  then show ?thesis by (simp add: n mset_array_sort)
qed

subsection \<open>The keys of the accumulator\<close>

lemma map_fst_update_own: "map fst (update_own k f st) = map fst st"
  by (induction st) auto

lemma keys_forEach_step:
  "map fst (forEach_step b st it) =
     (if item.Menu it \<in> set (map fst st) \<or> item.Menu it \<in> set Object_prototype_keys
      then map fst st else map fst st @ [item.Menu it])"
  by (simp add: forEach_step_def Let_def map_fst_update_own truthy_prop_def has_own_def)

lemma keys_foldl_forEach_step:
  "map fst (foldl (forEach_step b) st xs) =
     foldl (\<lambda>ks n. if n \<in> set ks \<or> n \<in> set Object_prototype_keys then ks else ks @ [n])
       (map fst st) (map item.Menu xs)"
  by (induction xs arbitrary: st) (simp_all add: keys_forEach_step)

lemma set_first_seen: "set (first_seen xs) = set xs"
  by (simp add: first_seen_def)

lemma distinct_first_seen: "distinct (first_seen xs)"
  by (simp add: first_seen_def)

lemma first_seen_Nil: "first_seen [] = []"
  by (simp add: first_seen_def)

lemma first_seen_snoc:
  "first_seen (xs @ [x]) = (if x \<in> set xs then first_seen xs else first_seen xs @ [x])"
  by (simp add: first_seen_def)

lemma foldl_keys_first_seen:
  "foldl (\<lambda>ks n. if n \<in> set ks \<or> P n then ks else ks @ [n]) [] ns
     = first_seen (filter (\<lambda>n. \<not> P n) ns)"
  by (induction ns rule: rev_induct) (auto simp: first_seen_snoc set_first_seen first_seen_Nil)

lemma keys_productStats:
  "map fst (productStats b bd)
     = first_seen (filter (\<lambda>n. n \<notin> set Object_prototype_keys) (map item.Menu bd))"
  using foldl_keys_first_seen [of "\<lambda>n. n \<in> set Object_prototype_keys" "map item.Menu bd"]
  by (simp add: productStats_def keys_foldl_forEach_step)

lemma update_own_Menu:
  "list_all (\<lambda>e. Menu (snd e) = fst e) st \<Longrightarrow> (\<And>v. Menu (f v) = Menu v)
     \<Longrightarrow> list_all (\<lambda>e. Menu (snd e) = fst e) (update_own k f st)"
  by (induction st) auto

lemma forEach_step_Menu:
  "list_all (\<lambda>e. Menu (snd e) = fst e) st
     \<Longrightarrow> list_all (\<lambda>e. Menu (snd e) = fst e) (forEach_step b st it)"
  unfolding forEach_step_def Let_def
  by (rule update_own_Menu) (auto simp: accumulate_def)

lemma foldl_forEach_step_Menu:
  "list_all (\<lambda>e. Menu (snd e) = fst e) st
     \<Longrightarrow> list_all (\<lambda>e. Menu (snd e) = fst e) (foldl (forEach_step b) st xs)"
  by (induction xs arbitrary: st) (simp_all add: forEach_step_Menu)

lemma productStats_Menu: "\<forall>e \<in> set (productStats b bd). Menu (snd e) = fst e"
  using foldl_forEach_step_Menu [of "[]" b bd]
  by (simp add: productStats_def list_all_iff)

lemma set_own_keys_order: "set (own_keys_order st) = set st"
  by (auto simp: own_keys_order_def)

lemma map_fst_insort_key:
  "map fst (insort_key (\<lambda>e. g (fst e)) x xs) = insort_key g (fst x) (map fst xs)"
  by (induction xs) auto

lemma map_fst_sort_key:
  "map fst (sort_key (\<lambda>e. g (fst e)) xs) = sort_key g (map fst xs)"
  by (induction xs) (simp_all add: map_fst_insort_key)

lemma keys_own_keys_order:
  "map fst (own_keys_order st) =
     sort_key decimal_val (filter is_array_index (map fst st))
     @ filter (\<lambda>k. \<not> is_array_index k) (map fst st)"
  by (simp add: own_keys_order_def map_fst_sort_key filter_map comp_def)

lemma Menu_products:
  "map Menu (products b bd) = map fst (own_keys_order (productStats b bd))"
  using productStats_Menu [of b bd]
  by (simp add: products_def Object_values_def with_percentages_def set_own_keys_order)

lemma distinct_Menu_products: "distinct (map Menu (products b bd))"
  by (auto simp: Menu_products keys_own_keys_order keys_productStats distinct_first_seen)

lemma distinct_products: "distinct (products b bd)"
  using distinct_Menu_products [of b bd] by (simp add: distinct_map)

subsection \<open>Ties under the sort\<close>

lemma array_sort_stable:
  "filter (\<lambda>p. f p = v) (array_sort (\<lambda>a b. f b - f a) xs) = filter (\<lambda>p. f p = v) xs"
  using sort_key_stable [of "\<lambda>p. - f p" "- v" xs]
  by (simp add: array_sort_sort_key)

lemma subseq_slice0: "subseq (slice0 xs e) xs"
  by (simp add: slice0_def Let_def prefix_imp_subseq take_is_prefix)

lemma pair_subseq_either:
  "x \<in> set xs \<Longrightarrow> y \<in> set xs \<Longrightarrow> x \<noteq> y \<Longrightarrow> subseq [x, y] xs \<or> subseq [y, x] xs"
  by (induction xs) (auto simp: subseq_singleton_left)

lemma pair_subseq_members: "subseq [x, y] xs \<Longrightarrow> x \<in> set xs \<and> y \<in> set xs"
  using list_emb_set [of "(=)" "[x, y]" xs] by auto

lemma pair_subseq_distinct:
  "distinct xs \<Longrightarrow> subseq [x, y] xs \<Longrightarrow> subseq [y, x] xs \<Longrightarrow> False"
  by (induction xs) (auto simp: subseq_singleton_left split: if_splits dest: pair_subseq_members)

lemma ties_keep_order:
  assumes "f x = f y" and "subseq [x, y] (slice0 (array_sort (\<lambda>a b. f b - f a) xs) e)"
  shows "subseq [x, y] xs"
proof -
  let ?P = "\<lambda>p. f p = f x"
  have "subseq [x, y] (array_sort (\<lambda>a b. f b - f a) xs)"
    using assms(2) subseq_slice0 subseq_order.trans by blast
  then have "subseq (filter ?P [x, y]) (filter ?P (array_sort (\<lambda>a b. f b - f a) xs))"
    by (rule subseq_filter)
  then have "subseq [x, y] (filter ?P xs)"
    using assms(1) by (simp add: array_sort_stable)
  then show ?thesis
    using subseq_filter_left subseq_order.trans by blast
qed

lemma ties_order_iff:
  assumes "distinct xs" and "f x = f y" and "x \<noteq> y"
    and "x \<in> set (slice0 (array_sort (\<lambda>a b. f b - f a) xs) e)"
    and "y \<in> set (slice0 (array_sort (\<lambda>a b. f b - f a) xs) e)"
  shows "subseq [x, y] (slice0 (array_sort (\<lambda>a b. f b - f a) xs) e) \<longleftrightarrow> subseq [x, y] xs"
proof
  assume "subseq [x, y] (slice0 (array_sort (\<lambda>a b. f b - f a) xs) e)"
  with assms(2) show "subseq [x, y] xs" by (rule ties_keep_order)
next
  assume xy: "subseq [x, y] xs"
  show "subseq [x, y] (slice0 (array_sort (\<lambda>a b. f b - f a) xs) e)"
  proof (rule ccontr)
    assume "\<not> subseq [x, y] (slice0 (array_sort (\<lambda>a b. f b - f a) xs) e)"
    with pair_subseq_either [OF assms(4) assms(5) assms(3)]
    have "subseq [y, x] (slice0 (array_sort (\<lambda>a b. f b - f a) xs) e)" by simp
    with assms(2) [symmetric] have "subseq [y, x] xs" by (rule ties_keep_order)
    with assms(1) xy show False by (rule pair_subseq_distinct)
  qed
qed

subsection \<open>Sums over the accumulator\<close>

lemma update_own_absent: "k \<notin> set (map fst st) \<Longrightarrow> update_own k f st = st"
  by (induction st) auto

lemma sum_update_own:
  fixes g :: "productStat \<Rightarrow> rat"
  assumes "\<And>v. g (f v) = g v + d"
  shows "k \<in> set (map fst st)
    \<Longrightarrow> sum_list (map (\<lambda>e. g (snd e)) (update_own k f st)) = sum_list (map (\<lambda>e. g (snd e)) st) + d"
proof (induction st)
  case Nil
  then show ?case by simp
next
  case (Cons e st)
  show ?case
  proof (cases "fst e = k")
    case True
    then show ?thesis by (cases e) (simp add: assms)
  next
    case False
    with Cons.prems have "k \<in> set (map fst st)" by auto
    with False Cons.IH show ?thesis by (cases e) simp
  qed
qed

lemma sum_forEach_step:
  fixes g :: "productStat \<Rightarrow> rat"
  assumes "\<And>v. g (accumulate it v) = g v + d"
    and "\<And>m b. g \<lparr>Menu = m, Total = 0, Qty = 0, Margin = 0, branch = b\<rparr> = 0"
    and "set (map fst st) \<inter> set Object_prototype_keys = {}"
  shows "sum_list (map (\<lambda>e. g (snd e)) (forEach_step b st it))
     = sum_list (map (\<lambda>e. g (snd e)) st)
       + (if item.Menu it \<in> set Object_prototype_keys then 0 else d)"
proof (cases "item.Menu it \<in> set Object_prototype_keys")
  case True
  with assms(3) have "item.Menu it \<notin> set (map fst st)" by auto
  with True show ?thesis
    by (simp add: forEach_step_def truthy_prop_def update_own_absent)
next
  case False
  show ?thesis
  proof (cases "item.Menu it \<in> set (map fst st)")
    case True
    with False show ?thesis
      using sum_update_own [where g = g and f = "accumulate it" and d = d
          and k = "item.Menu it" and st = st] assms(1)
      by (simp add: forEach_step_def truthy_prop_def has_own_def)
  next
    case absent: False
    let ?st1 = "st @ [(item.Menu it,
        \<lparr>Menu = item.Menu it, Total = 0, Qty = 0, Margin = 0, branch = b\<rparr>)]"
    have "item.Menu it \<in> set (map fst ?st1)" by simp
    then have "sum_list (map (\<lambda>e. g (snd e)) (update_own (item.Menu it) (accumulate it) ?st1))
       = sum_list (map (\<lambda>e. g (snd e)) ?st1) + d"
      using sum_update_own [where g = g and f = "accumulate it" and d = d
          and k = "item.Menu it" and st = ?st1] assms(1)
      by blast
    with False absent show ?thesis
      by (simp add: forEach_step_def truthy_prop_def has_own_def assms(2))
  qed
qed

lemma keys_forEach_step_ordinary:
  "set (map fst st) \<inter> set Object_prototype_keys = {}
     \<Longrightarrow> set (map fst (forEach_step b st it)) \<inter> set Object_prototype_keys = {}"
  by (auto simp: keys_forEach_step split: if_splits)

lemma sum_foldl_forEach_step:
  fixes g :: "productStat \<Rightarrow> rat"
  assumes "\<And>it v. g (accumulate it v) = g v + h it"
    and "\<And>m b. g \<lparr>Menu = m, Total = 0, Qty = 0, Margin = 0, branch = b\<rparr> = 0"
  shows "set (map fst st) \<inter> set Object_prototype_keys = {}
     \<Longrightarrow> sum_list (map (\<lambda>e. g (snd e)) (foldl (forEach_step b) st xs))
       = sum_list (map (\<lambda>e. g (snd e)) st)
         + sum_list (map h (filter (\<lambda>it. item.Menu it \<notin> set Object_prototype_keys) xs))"
proof (induction xs arbitrary: st)
  case Nil
  then show ?case by simp
next
  case (Cons x xs)
  have "set (map fst (forEach_step b st x)) \<inter> set Object_prototype_keys = {}"
    using Cons.prems by (rule keys_forEach_step_ordinary)
  then show ?case
    using Cons.IH [of "forEach_step b st x"]
      sum_forEach_step [where g = g and it = x and d = "h x" and st = st and b = b]
      assms Cons.prems
    by simp
qed

lemma mset_own_keys_order: "mset (own_keys_order st) = mset st"
  by (simp add: own_keys_order_def)

lemma sum_own_keys_order:
  fixes g :: "string \<times> productStat \<Rightarrow> rat"
  shows "sum_list (map g (own_keys_order st)) = sum_list (map g st)"
proof -
  have "sum_mset (image_mset g (mset (own_keys_order st))) = sum_mset (image_mset g (mset st))"
    by (simp only: mset_own_keys_order)
  then show ?thesis
    by (simp only: mset_map [symmetric] sum_mset_sum_list)
qed

lemma aggregate_sums:
  fixes g :: "product \<Rightarrow> rat" and g' :: "productStat \<Rightarrow> rat"
  assumes "\<And>v. g (with_percentages v) = g' v"
    and "\<And>it v. g' (accumulate it v) = g' v + h it"
    and "\<And>m b. g' \<lparr>Menu = m, Total = 0, Qty = 0, Margin = 0, branch = b\<rparr> = 0"
  shows "sum_list (map g (products b bd))
      = sum_list (map h (filter (\<lambda>it. item.Menu it \<notin> set Object_prototype_keys) bd))"
proof -
  have "sum_list (map g (products b bd))
      = sum_list (map (\<lambda>e. g' (snd e)) (own_keys_order (productStats b bd)))"
    by (simp add: products_def Object_values_def comp_def assms(1))
  also have "\<dots> = sum_list (map (\<lambda>e. g' (snd e)) (productStats b bd))"
    by (rule sum_own_keys_order)
  also have "\<dots> = sum_list (map h (filter (\<lambda>it. item.Menu it \<notin> set Object_prototype_keys) bd))"
    unfolding productStats_def
    using sum_foldl_forEach_step [where g = g' and h = h and st = "[]" and b = b and xs = bd]
      assms(2) assms(3)
    by simp
  finally show ?thesis .
qed

lemma conservation_ordinary_names:
  "sum_list (map Total (products b bd))
     = sum_list (map (\<lambda>it. or0 (item.Total it))
         (filter (\<lambda>it. item.Menu it \<notin> set Object_prototype_keys) bd))"
  "sum_list (map Qty (products b bd))
     = sum_list (map (\<lambda>it. or0 (item.Qty it))
         (filter (\<lambda>it. item.Menu it \<notin> set Object_prototype_keys) bd))"
  "sum_list (map Margin (products b bd))
     = sum_list (map (\<lambda>it. or0 (item.Margin it))
         (filter (\<lambda>it. item.Menu it \<notin> set Object_prototype_keys) bd))"
  using aggregate_sums [where g = Total and g' = Total and h = "\<lambda>it. or0 (item.Total it)"
      and b = b and bd = bd]
    aggregate_sums [where g = Qty and g' = Qty and h = "\<lambda>it. or0 (item.Qty it)"
      and b = b and bd = bd]
    aggregate_sums [where g = Margin and g' = Margin and h = "\<lambda>it. or0 (item.Margin it)"
      and b = b and bd = bd]
  by (simp_all add: with_percentages_def accumulate_def)

subsection \<open>The order of names that are not array indices\<close>

lemma subseq_pair_filter:
  "P a \<Longrightarrow> P b \<Longrightarrow> subseq [a, b] (filter P xs) \<longleftrightarrow> subseq [a, b] xs"
proof
  assume "subseq [a, b] (filter P xs)"
  then show "subseq [a, b] xs"
    using subseq_filter_left subseq_order.trans by blast
next
  assume "P a" and "P b" and "subseq [a, b] xs"
  then have "subseq (filter P [a, b]) (filter P xs)"
    using subseq_filter by blast
  with \<open>P a\<close> \<open>P b\<close> show "subseq [a, b] (filter P xs)" by simp
qed

lemma first_seen_filter: "first_seen (filter P xs) = filter P (first_seen xs)"
  by (simp only: first_seen_def rev_filter remdups_filter)

lemma noindex_keys_own_keys_order:
  "filter (\<lambda>k. \<not> is_array_index k) (map fst (own_keys_order st))
     = filter (\<lambda>k. \<not> is_array_index k) (map fst st)"
  by (simp add: keys_own_keys_order filter_sort)

lemma names_order_forward:
  assumes "subseq [x, y] (products b bd)"
    and "\<not> is_array_index (Menu x)" and "\<not> is_array_index (Menu y)"
  shows "subseq [Menu x, Menu y] (first_seen (map item.Menu bd))"
proof -
  let ?N = "\<lambda>k. \<not> is_array_index k"
  have "subseq (map Menu [x, y]) (map Menu (products b bd))"
    using assms(1) by (rule subseq_map)
  then have "subseq [Menu x, Menu y] (map fst (own_keys_order (productStats b bd)))"
    by (simp add: Menu_products)
  then have "subseq [Menu x, Menu y] (filter ?N (map fst (own_keys_order (productStats b bd))))"
    using assms(2,3) by (simp add: subseq_pair_filter)
  then have "subseq [Menu x, Menu y] (filter ?N (map fst (productStats b bd)))"
    by (simp only: noindex_keys_own_keys_order)
  then have "subseq [Menu x, Menu y] (map fst (productStats b bd))"
    using subseq_filter_left subseq_order.trans by blast
  then have "subseq [Menu x, Menu y]
      (filter (\<lambda>n. n \<notin> set Object_prototype_keys) (first_seen (map item.Menu bd)))"
    by (simp add: keys_productStats first_seen_filter)
  then show ?thesis
    using subseq_filter_left subseq_order.trans by blast
qed

lemma names_order_iff:
  assumes "x \<in> set (products b bd)" and "y \<in> set (products b bd)" and "x \<noteq> y"
    and "\<not> is_array_index (Menu x)" and "\<not> is_array_index (Menu y)"
  shows "subseq [x, y] (products b bd)
     \<longleftrightarrow> subseq [Menu x, Menu y] (first_seen (map item.Menu bd))"
proof
  assume "subseq [x, y] (products b bd)"
  then show "subseq [Menu x, Menu y] (first_seen (map item.Menu bd))"
    using assms(4,5) by (rule names_order_forward)
next
  assume names: "subseq [Menu x, Menu y] (first_seen (map item.Menu bd))"
  show "subseq [x, y] (products b bd)"
  proof (rule ccontr)
    assume "\<not> subseq [x, y] (products b bd)"
    with pair_subseq_either [OF assms(1) assms(2) assms(3)]
    have "subseq [y, x] (products b bd)" by simp
    then have "subseq [Menu y, Menu x] (first_seen (map item.Menu bd))"
      using assms(5,4) by (rule names_order_forward)
    with distinct_first_seen names show False by (rule pair_subseq_distinct)
  qed
qed

lemma set_slice0: "x \<in> set (slice0 xs e) \<Longrightarrow> x \<in> set xs"
  unfolding slice0_def Let_def by (rule in_set_takeD)

lemma set_topProducts: "x \<in> set (topProducts prods sortBy count') \<Longrightarrow> x \<in> set prods"
proof -
  assume "x \<in> set (topProducts prods sortBy count')"
  then have "x \<in> set (array_sort (\<lambda>a b. sortField sortBy b - sortField sortBy a) prods)"
    unfolding topProducts_def by (rule set_slice0)
  then show "x \<in> set prods"
    by (simp add: array_sort_sort_key)
qed

section \<open>The branch filter\<close>

text \<open>
  C9. The branch filter returns exactly the subsequence of the records whose branch is
  string-equal to the selected branch: the output is a subsequence of the input, every
  record of it carries the selected branch, no record of another branch is in it, and
  every record of the selected branch occurs in it as often as in the input.
\<close>

theorem branch_filter_exact:
  "subseq (branchData allData selectedBranch) allData
   \<and> (\<forall>it \<in> set (branchData allData selectedBranch). Branch it = selectedBranch)
   \<and> (\<forall>it. Branch it \<noteq> selectedBranch \<longrightarrow> it \<notin> set (branchData allData selectedBranch))
   \<and> (\<forall>it. Branch it = selectedBranch \<longrightarrow>
         count_list (branchData allData selectedBranch) it = count_list allData it)"
  by (simp add: branchData_def count_list_filter)

theorem branch_filter_exact_witness:
  "branchData ex_branches ''A'' = [sale ''A'' ''X'' 2 100 20 80]
   \<and> Branch (sale ''A'' ''X'' 2 100 20 80) = ''A''
   \<and> sale ''a'' ''X'' 1 40 4 36 \<notin> set (branchData ex_branches ''A'')
   \<and> count_list (branchData ex_branches ''A'') (sale ''A'' ''X'' 2 100 20 80) = 1"
  using branch_filter_exact [of ex_branches "''A''"]
  by (simp add: branchData_def ex_branches_def sale_def)

section \<open>The composite status\<close>



section \<open>The sort key\<close>

text \<open>
  C1, as the specification states it, fails: the unrecognised key "price" raises nothing,
  and the table comes out ranked by summed total (Y, which earns 200, before X, which
  earns 100), under a summary that is headed "margin".
\<close>

theorem invalid_sort_key_counterexample:
  "''price'' \<notin> {''revenue'', ''quantity'', ''margin''}
   \<and> updateTopPerformersTable True True ''A'' ''all'' ''price'' ex_menu =
       Table
         [\<lparr>rank = 1, rank_badge = ''status-excellent'', name = ''Y'', revenue = 200,
           quantity = 1, margin_pct = 30, margin_badge = ''status-good'', avg_price = 200,
           status_badge = ''status-excellent'', status_text = ''Star Product''\<rparr>,
          \<lparr>rank = 2, rank_badge = ''status-excellent'', name = ''X'', revenue = 100,
           quantity = 2, margin_pct = 25, margin_badge = ''status-good'', avg_price = 50,
           status_badge = ''status-excellent'', status_text = ''Star Product''\<rparr>]
         2 2 (Summary [''Y'', ''X''] ''margin'' 300 (55 / 2) 2 2)"
  by (simp add: pipeline_defs ex_menu_def)

text \<open>
  C1, amended. The key "revenue" selects the summed total, "quantity" the summed quantity
  and "margin" the margin percentage, and the ranking is in non-increasing order of the
  selected field. Every other key is treated like "revenue": it selects the summed total,
  the ranking is the one for "revenue", and whenever "revenue" renders a table the other
  key renders the same rows and counts. Whether a table is rendered depends on the
  container, the data and the selected branch only, never on the sort key.
\<close>

theorem sort_key_selects_field:
  "sortField ''revenue'' = Total \<and> sortField ''quantity'' = Qty
   \<and> sortField ''margin'' = Margin_Percentage
   \<and> (sort_key_spec sortBy = Some key \<longrightarrow>
        sortField sortBy = key
        \<and> sorted_wrt (\<lambda>a b. key a \<ge> key b) (topProducts prods sortBy count'))
   \<and> (sort_key_spec sortBy = None \<longrightarrow>
        sortField sortBy = Total
        \<and> topProducts prods sortBy count' = topProducts prods ''revenue'' count'
        \<and> (updateTopPerformersTable hasTable hasSummary selectedBranch count' ''revenue'' allData
              = Table rs n m sm
            \<longrightarrow> (\<exists>sm'. updateTopPerformersTable hasTable hasSummary selectedBranch count' sortBy
                          allData = Table rs n m sm')))
   \<and> ((\<exists>rs' n' m' sm'. updateTopPerformersTable hasTable hasSummary selectedBranch count' sortBy
                          allData = Table rs' n' m' sm')
        \<longleftrightarrow> hasTable \<and> allData \<noteq> [] \<and> selectedBranch \<noteq> []
            \<and> branchData allData selectedBranch \<noteq> [])"
proof -
  have 0: "sortField ''revenue'' = Total" "sortField ''quantity'' = Qty"
    "sortField ''margin'' = Margin_Percentage"
    by (simp_all add: sortField_def)
  have 1: "sortField sortBy = key
        \<and> sorted_wrt (\<lambda>a b. key a \<ge> key b) (topProducts prods sortBy count')"
    if s: "sort_key_spec sortBy = Some key"
  proof -
    from s have key: "sortField sortBy = key" by (rule sortField_spec)
    have "sorted_wrt (\<lambda>a b. key a \<ge> key b) (topProducts prods sortBy count')"
      unfolding topProducts_def key by (rule sorted_wrt_slice0) (rule array_sort_desc)
    with key show ?thesis by simp
  qed
  have 2: "sortField sortBy = Total
        \<and> topProducts prods sortBy count' = topProducts prods ''revenue'' count'
        \<and> (updateTopPerformersTable hasTable hasSummary selectedBranch count' ''revenue'' allData
              = Table rs n m sm
            \<longrightarrow> (\<exists>sm'. updateTopPerformersTable hasTable hasSummary selectedBranch count' sortBy
                          allData = Table rs n m sm'))"
    if u: "sort_key_spec sortBy = None"
  proof -
    from u have f: "sortField sortBy = Total" by (rule sortField_unknown)
    then have t: "topProducts ps sortBy count' = topProducts ps ''revenue'' count'" for ps
      by (simp add: topProducts_def 0(1))
    show ?thesis
      using f t by (auto simp: updateTopPerformersTable_def Let_def split: if_splits)
  qed
  have 3: "(\<exists>rs' n' m' sm'. updateTopPerformersTable hasTable hasSummary selectedBranch count' sortBy
                          allData = Table rs' n' m' sm')
        \<longleftrightarrow> hasTable \<and> allData \<noteq> [] \<and> selectedBranch \<noteq> []
            \<and> branchData allData selectedBranch \<noteq> []"
    by (auto simp: updateTopPerformersTable_def Let_def split: if_splits)
  from 0 1 2 3 show ?thesis by blast
qed

theorem sort_key_selects_field_witness:
  "sort_key_spec ''margin'' = Some Margin_Percentage
   \<and> sort_key_spec ''price'' = None
   \<and> map Menu (products ''A'' (branchData ex_three ''A'')) = [''Cendol'', ''Ayam'', ''Bakso'']
   \<and> map Menu (topProducts (products ''A'' (branchData ex_three ''A'')) ''revenue'' ''all'')
       = [''Ayam'', ''Bakso'', ''Cendol'']
   \<and> map Menu (topProducts (products ''A'' (branchData ex_three ''A'')) ''quantity'' ''all'')
       = [''Bakso'', ''Cendol'', ''Ayam'']
   \<and> map Menu (topProducts (products ''A'' (branchData ex_three ''A'')) ''margin'' ''all'')
       = [''Cendol'', ''Bakso'', ''Ayam'']
   \<and> map Menu (topProducts (products ''A'' (branchData ex_three ''A'')) ''price'' ''all'')
       = [''Ayam'', ''Bakso'', ''Cendol'']"
  using sort_key_selects_field [of "''margin''" Margin_Percentage
      "products ''A'' (branchData ex_three ''A'')" "''all''" True True "''A''" ex_three
      "rows (updateTopPerformersTable True True ''A'' ''all'' ''revenue'' ex_three)"
      "shown (updateTopPerformersTable True True ''A'' ''all'' ''revenue'' ex_three)"
      "total (updateTopPerformersTable True True ''A'' ''all'' ''revenue'' ex_three)"
      "summary (updateTopPerformersTable True True ''A'' ''all'' ''revenue'' ex_three)"]
    sort_key_selects_field [of "''price''" Total
      "products ''A'' (branchData ex_three ''A'')" "''all''" True True "''A''" ex_three
      "rows (updateTopPerformersTable True True ''A'' ''all'' ''revenue'' ex_three)"
      "shown (updateTopPerformersTable True True ''A'' ''all'' ''revenue'' ex_three)"
      "total (updateTopPerformersTable True True ''A'' ''all'' ''revenue'' ex_three)"
      "summary (updateTopPerformersTable True True ''A'' ''all'' ''revenue'' ex_three)"]
  by (simp add: pipeline_defs ex_three_def sort_key_spec_def)

section \<open>Derived percentages\<close>

text \<open>
  C3, as the specification states it, fails: an aggregate with the summed revenue -100
  and the summed margin -20 has a revenue sum other than 0, and its margin percentage is
  0, not -20 / -100 * 100 = 20.
\<close>

theorem percentages_nonzero_counterexample:
  "Total (hd (products ''A'' (branchData ex_refund ''A''))) \<noteq> 0
   \<and> Margin (hd (products ''A'' (branchData ex_refund ''A'')))
       / Total (hd (products ''A'' (branchData ex_refund ''A''))) * 100 = 20
   \<and> Margin_Percentage (hd (products ''A'' (branchData ex_refund ''A''))) = 0"
  by (simp add: pipeline_defs ex_refund_def)

text \<open>
  C3, amended. For every aggregate, the margin percentage is the margin sum divided by the
  revenue sum, times 100, when the revenue sum is greater than 0, and exactly 0 when it is
  0 or less; the average price is the revenue sum divided by the quantity sum when the
  quantity sum is greater than 0, and exactly 0 when it is 0 or less.
\<close>

theorem percentages_guarded:
  "\<forall>p \<in> set (products selectedBranch bd).
     Margin_Percentage p = (if Total p > 0 then Margin p / Total p * 100 else 0)
     \<and> Avg_Price p = (if Qty p > 0 then Total p / Qty p else 0)"
  by (auto simp: products_def with_percentages_def)

theorem percentages_guarded_witness:
  "products ''A'' (branchData ex_scenario ''A'') =
     [\<lparr>Menu = ''X'', Total = 250, Qty = 5, Margin = 50, branch = ''A'',
       Margin_Percentage = 20, Avg_Price = 50\<rparr>]
   \<and> (50::rat) / 250 * 100 = 20 \<and> (250::rat) / 5 = 50"
  using percentages_guarded [of "''A''" "branchData ex_scenario ''A''"]
  by (simp add: pipeline_defs ex_scenario_def)

section \<open>Truncation\<close>

text \<open>
  C5. For each of the three sort keys of the specification, with the field it names: the
  ranker's output is in non-increasing order of that field; its entries are aggregates of
  the collection, none more often than there; every aggregate left out has a value of the
  field that is no greater than that of any entry kept; when the count parses to a number
  \<open>k\<close> smaller than the number of aggregates, the output has exactly \<open>k\<close> entries; and
  with the count "all" it has every aggregate.
\<close>

theorem ranker_truncation:
  "sort_key_spec sortBy = Some key \<longrightarrow>
     sorted_wrt (\<lambda>a b. key a \<ge> key b) (topProducts prods sortBy count')
     \<and> mset (topProducts prods sortBy count') \<subseteq># mset prods
     \<and> (\<forall>x \<in> set (topProducts prods sortBy count').
          \<forall>y \<in># mset prods - mset (topProducts prods sortBy count'). key y \<le> key x)
     \<and> (parseInt count' = Some (int k) \<and> k < length prods
          \<longrightarrow> length (topProducts prods sortBy count') = k)
     \<and> (count' = ''all''
          \<longrightarrow> length (topProducts prods sortBy count') = length prods
              \<and> mset (topProducts prods sortBy count') = mset prods)"
proof
  assume "sort_key_spec sortBy = Some key"
  then have key: "sortField sortBy = key" by (rule sortField_spec)
  have 1: "sorted_wrt (\<lambda>a b. key a \<ge> key b) (topProducts prods sortBy count')"
    unfolding topProducts_def key by (rule sorted_wrt_slice0) (rule array_sort_desc)
  have 2: "mset (topProducts prods sortBy count') \<subseteq># mset prods"
    by (rule mset_topProducts)
  have 3: "\<forall>x \<in> set (topProducts prods sortBy count').
          \<forall>y \<in># mset prods - mset (topProducts prods sortBy count'). key y \<le> key x"
    using topProducts_dominates [of _ prods sortBy count'] key by blast
  have 4: "length (topProducts prods sortBy count') = k"
    if a: "parseInt count' = Some (int k) \<and> k < length prods"
  proof -
    from a have "count' \<noteq> ''all''" using parseInt_all by auto
    with a show ?thesis
      by (simp add: topProducts_def slice0_nat length_array_sort)
  qed
  have 5: "length (topProducts prods sortBy count') = length prods
              \<and> mset (topProducts prods sortBy count') = mset prods"
    if "count' = ''all''"
    using that by (simp add: topProducts_def slice0_nat length_array_sort mset_array_sort)
  from 1 2 3 4 5 show "sorted_wrt (\<lambda>a b. key a \<ge> key b) (topProducts prods sortBy count')
     \<and> mset (topProducts prods sortBy count') \<subseteq># mset prods
     \<and> (\<forall>x \<in> set (topProducts prods sortBy count').
          \<forall>y \<in># mset prods - mset (topProducts prods sortBy count'). key y \<le> key x)
     \<and> (parseInt count' = Some (int k) \<and> k < length prods
          \<longrightarrow> length (topProducts prods sortBy count') = k)
     \<and> (count' = ''all''
          \<longrightarrow> length (topProducts prods sortBy count') = length prods
              \<and> mset (topProducts prods sortBy count') = mset prods)"
    by blast
qed

theorem ranker_truncation_witness:
  "sort_key_spec ''quantity'' = Some Qty
   \<and> parseInt ''2'' = Some (int 2)
   \<and> 2 < length (products ''A'' (branchData ex_three ''A''))
   \<and> map Menu (products ''A'' (branchData ex_three ''A'')) = [''Cendol'', ''Ayam'', ''Bakso'']
   \<and> map Qty (products ''A'' (branchData ex_three ''A'')) = [2, 1, 3]
   \<and> map Menu (topProducts (products ''A'' (branchData ex_three ''A'')) ''quantity'' ''2'')
       = [''Bakso'', ''Cendol'']
   \<and> length (topProducts (products ''A'' (branchData ex_three ''A'')) ''quantity'' ''2'') = 2"
  using ranker_truncation [of "''quantity''" Qty "products ''A'' (branchData ex_three ''A'')"
      "''2''" 2]
  by (simp add: pipeline_defs ex_three_def sort_key_spec_def)

section \<open>The summary\<close>

text \<open>
  C10. Whenever a table with at least one row is rendered together with its summary, the
  total revenue of the summary is the sum of the revenue column of the displayed rows and
  its average margin is the sum of their margin percentages divided by their number. The
  figures leave out what the limit cut off: with the count 1 the sample branch A reports
  200 and 30, while its two aggregates together earn 300.
\<close>

theorem summary_over_displayed_rows:
  "(updateTopPerformersTable hasTable True selectedBranch count' sortBy allData
       = Table rs n m sm \<and> rs \<noteq> []
     \<longrightarrow> totalRevenue sm = sum_list (map revenue rs)
         \<and> avgMargin sm = sum_list (map margin_pct rs) / of_nat (length rs)
         \<and> showing sm = length rs)
   \<and> updateTopPerformersTable True True ''A'' ''1'' ''revenue'' ex_menu =
       Table
         [\<lparr>rank = 1, rank_badge = ''status-excellent'', name = ''Y'', revenue = 200,
           quantity = 1, margin_pct = 30, margin_badge = ''status-good'', avg_price = 200,
           status_badge = ''status-excellent'', status_text = ''Star Product''\<rparr>]
         1 2 (Summary [''Y''] ''revenue'' 200 30 1 2)
   \<and> sum_list (map Total (products ''A'' (branchData ex_menu ''A''))) = 300"
proof -
  have "totalRevenue sm = sum_list (map revenue rs)
         \<and> avgMargin sm = sum_list (map margin_pct rs) / of_nat (length rs)
         \<and> showing sm = length rs"
    if "updateTopPerformersTable hasTable True selectedBranch count' sortBy allData
            = Table rs n m sm \<and> rs \<noteq> []"
    using that
    by (auto simp: updateTopPerformersTable_def updateTopPerformersSummary_def Let_def
          foldl_add_sum_list table_rows_columns length_table_rows table_rows_def [of "[]"]
        split: if_splits)
  moreover have "updateTopPerformersTable True True ''A'' ''1'' ''revenue'' ex_menu =
       Table
         [\<lparr>rank = 1, rank_badge = ''status-excellent'', name = ''Y'', revenue = 200,
           quantity = 1, margin_pct = 30, margin_badge = ''status-good'', avg_price = 200,
           status_badge = ''status-excellent'', status_text = ''Star Product''\<rparr>]
         1 2 (Summary [''Y''] ''revenue'' 200 30 1 2)"
    by (simp add: pipeline_defs ex_menu_def)
  moreover have "sum_list (map Total (products ''A'' (branchData ex_menu ''A''))) = 300"
    by (simp add: pipeline_defs ex_menu_def)
  ultimately show ?thesis by blast
qed

theorem summary_over_displayed_rows_witness:
  "rows (updateTopPerformersTable True True ''A'' ''all'' ''revenue'' ex_menu) \<noteq> []
   \<and> totalRevenue (summary (updateTopPerformersTable True True ''A'' ''all'' ''revenue'' ex_menu))
       = 300
   \<and> avgMargin (summary (updateTopPerformersTable True True ''A'' ''all'' ''revenue'' ex_menu))
       = 55 / 2
   \<and> map revenue (rows (updateTopPerformersTable True True ''A'' ''all'' ''revenue'' ex_menu))
       = [200, 100]
   \<and> map margin_pct (rows (updateTopPerformersTable True True ''A'' ''all'' ''revenue'' ex_menu))
       = [30, 25]"
  using summary_over_displayed_rows [of True "''A''" "''all''" "''revenue''" ex_menu
      "rows (updateTopPerformersTable True True ''A'' ''all'' ''revenue'' ex_menu)"
      "shown (updateTopPerformersTable True True ''A'' ''all'' ''revenue'' ex_menu)"
      "total (updateTopPerformersTable True True ''A'' ''all'' ''revenue'' ex_menu)"
      "summary (updateTopPerformersTable True True ''A'' ''all'' ''revenue'' ex_menu)"]
  by (simp add: pipeline_defs ex_menu_def)

section \<open>The financial breakdown of one product\<close>

text \<open>
  C7. When at least one record matches the product and the (non-empty) branch, the detail
  view is rendered and the chart receives exactly those of the three components net
  revenue (total revenue minus total cost of goods), margin and cost of goods whose value
  is greater than 0, in this order; when none is, the view shows the "invalid data"
  message, which is not the "no data" message. With revenue 1000, cost of goods 1200 and
  margin -200 the breakdown is the single component cost of goods.
\<close>

theorem breakdown_positive_components:
  "(selectedBranch \<noteq> []
     \<and> productData = filter (\<lambda>it. item.Menu it = productName \<and> Branch it = selectedBranch) allData
     \<and> productData \<noteq> []
     \<and> kept = filter (\<lambda>c. val c > 0)
         [\<lparr>label = ''Net Revenue'',
           val = sum_list (map (\<lambda>it. or0 (item.Total it)) productData)
                 - sum_list (map (\<lambda>it. or0 (COGS_Total it)) productData),
           color = ''#2E8B57''\<rparr>,
          \<lparr>label = ''Margin (Profit)'',
           val = sum_list (map (\<lambda>it. or0 (item.Margin it)) productData),
           color = ''#4CAF50''\<rparr>,
          \<lparr>label = ''COGS (Cost)'',
           val = sum_list (map (\<lambda>it. or0 (COGS_Total it)) productData),
           color = ''#FF6B6B''\<rparr>]
     \<longrightarrow> showProductDetails productName selectedBranch allData \<noteq> DetailUnchanged
         \<and> d_chart (showProductDetails productName selectedBranch allData)
             = createEnhancedProductChart productData
         \<and> createEnhancedProductChart productData
             = (if kept = [] then ChartInvalidData else Chart kept)
         \<and> createEnhancedProductChart productData \<noteq> ChartNoData)
   \<and> ChartInvalidData \<noteq> ChartNoData
   \<and> d_chart (showProductDetails ''X'' ''A'' ex_loss)
       = Chart [\<lparr>label = ''COGS (Cost)'', val = 1200, color = ''#FF6B6B''\<rparr>]"
proof -
  have "d_chart (showProductDetails ''X'' ''A'' ex_loss)
       = Chart [\<lparr>label = ''COGS (Cost)'', val = 1200, color = ''#FF6B6B''\<rparr>]"
    by (simp add: showProductDetails_def createEnhancedProductChart_def ex_loss_def sale_def
          or0_def Let_def)
  then show ?thesis
    by (auto simp: showProductDetails_def createEnhancedProductChart_def Let_def
          foldl_add_sum_list)
qed

theorem breakdown_positive_components_witness:
  "''A'' \<noteq> []
   \<and> filter (\<lambda>it. item.Menu it = ''X'' \<and> Branch it = ''A'') ex_loss \<noteq> []
   \<and> showProductDetails ''X'' ''A'' ex_loss =
       Detail 1000 1 (- 20) 1
         (Chart [\<lparr>label = ''COGS (Cost)'', val = 1200, color = ''#FF6B6B''\<rparr>])"
  using breakdown_positive_components [of "''A''"
      "filter (\<lambda>it. item.Menu it = ''X'' \<and> Branch it = ''A'') ex_loss" "''X''" ex_loss
      "[\<lparr>label = ''COGS (Cost)'', val = 1200, color = ''#FF6B6B''\<rparr>]"]
  by (simp add: showProductDetails_def createEnhancedProductChart_def ex_loss_def sale_def
        or0_def Let_def)

section \<open>Stability of the ranking\<close>

text \<open>
  C4, as the specification states it, fails: the products "2" and "1" earn the same and
  are inserted in this order, and the ranking by revenue lists "1" before "2".
\<close>

theorem tie_order_counterexample:
  "first_seen (map item.Menu (branchData ex_numeric ''A'')) = [''2'', ''1'']
   \<and> map fst (productStats ''A'' (branchData ex_numeric ''A'')) = [''2'', ''1'']
   \<and> map Total (topProducts (products ''A'' (branchData ex_numeric ''A'')) ''revenue'' ''all'')
       = [100, 100]
   \<and> map Menu (topProducts (products ''A'' (branchData ex_numeric ''A'')) ''revenue'' ''all'')
       = [''1'', ''2'']"
  by (simp add: pipeline_defs ex_numeric_def first_seen_def)

text \<open>
  C4, amended. For two different entries of the ranked, truncated output with the same
  value of the chosen sort field, the first stands before the second in the output exactly
  when it stands before it in the array of aggregates that the aggregator hands to the
  ranker: the descending sort is stable. When neither of the two product names is an array
  index, this is the order in which the two names are first seen in the branch-filtered
  records. (\<open>subseq [x, y] xs\<close> says that \<open>x\<close> occurs before \<open>y\<close> in \<open>xs\<close>;
  the aggregates are pairwise different.)
\<close>

theorem ranker_stable:
  "x \<in> set (topProducts (products b bd) sortBy count')
   \<and> y \<in> set (topProducts (products b bd) sortBy count')
   \<and> x \<noteq> y \<and> sortField sortBy x = sortField sortBy y
   \<longrightarrow> (subseq [x, y] (topProducts (products b bd) sortBy count')
          \<longleftrightarrow> subseq [x, y] (products b bd))
       \<and> (\<not> is_array_index (Menu x) \<and> \<not> is_array_index (Menu y)
          \<longrightarrow> (subseq [x, y] (topProducts (products b bd) sortBy count')
                \<longleftrightarrow> subseq [Menu x, Menu y] (first_seen (map item.Menu bd))))"
proof
  assume a: "x \<in> set (topProducts (products b bd) sortBy count')
   \<and> y \<in> set (topProducts (products b bd) sortBy count')
   \<and> x \<noteq> y \<and> sortField sortBy x = sortField sortBy y"
  then have 1: "subseq [x, y] (topProducts (products b bd) sortBy count')
          \<longleftrightarrow> subseq [x, y] (products b bd)"
    unfolding topProducts_def
    using ties_order_iff [OF distinct_products, of "sortField sortBy" x y b bd]
    by blast
  from a have "x \<in> set (products b bd)" and "y \<in> set (products b bd)" and "x \<noteq> y"
    by (auto dest: set_topProducts)
  then have "subseq [x, y] (products b bd)
     \<longleftrightarrow> subseq [Menu x, Menu y] (first_seen (map item.Menu bd))"
    if "\<not> is_array_index (Menu x) \<and> \<not> is_array_index (Menu y)"
    using that by (simp add: names_order_iff)
  with 1 show "(subseq [x, y] (topProducts (products b bd) sortBy count')
          \<longleftrightarrow> subseq [x, y] (products b bd))
       \<and> (\<not> is_array_index (Menu x) \<and> \<not> is_array_index (Menu y)
          \<longrightarrow> (subseq [x, y] (topProducts (products b bd) sortBy count')
                \<longleftrightarrow> subseq [Menu x, Menu y] (first_seen (map item.Menu bd))))"
    by blast
qed

theorem ranker_stable_witness:
  "products ''A'' (branchData ex_ties ''A'') = [ex_P, ex_Q, ex_R]
   \<and> topProducts (products ''A'' (branchData ex_ties ''A'')) ''revenue'' ''all''
       = [ex_R, ex_P, ex_Q]
   \<and> ex_P \<noteq> ex_Q \<and> sortField ''revenue'' ex_P = sortField ''revenue'' ex_Q
   \<and> \<not> is_array_index (Menu ex_P) \<and> \<not> is_array_index (Menu ex_Q)
   \<and> first_seen (map item.Menu (branchData ex_ties ''A'')) = [''P'', ''Q'', ''R'']
   \<and> subseq [ex_P, ex_Q] (topProducts (products ''A'' (branchData ex_ties ''A'')) ''revenue'' ''all'')
   \<and> subseq [ex_P, ex_Q] (products ''A'' (branchData ex_ties ''A''))
   \<and> subseq [Menu ex_P, Menu ex_Q] (first_seen (map item.Menu (branchData ex_ties ''A'')))"
  using ranker_stable [of ex_P "''A''" "branchData ex_ties ''A''" "''revenue''" "''all''" ex_Q]
  by (simp add: pipeline_defs ex_ties_def ex_P_def ex_Q_def ex_R_def first_seen_def)

section \<open>The order of the aggregates\<close>

text \<open>
  C8, as the specification states it, fails: when the product "2" is seen before the
  product "1", the aggregates come out with "1" before "2".
\<close>

theorem first_seen_order_counterexample:
  "first_seen (map item.Menu (branchData ex_numeric ''A'')) = [''2'', ''1'']
   \<and> map Menu (products ''A'' (branchData ex_numeric ''A'')) = [''1'', ''2'']"
  by (simp add: pipeline_defs ex_numeric_def first_seen_def)

text \<open>
  C8, amended. When no product name of the branch-filtered sequence is a property that
  every object inherits, the aggregates whose names are array indices (decimal numerals of
  the integers from 0 to \<open>2^32 - 2\<close>, without leading zeros) come first, in ascending
  numeric order, and the aggregates of all other names follow in the first-seen order of
  their names. In particular, when no product name is an array index either, the
  aggregates are in the first-seen order of their names.
\<close>

theorem enumeration_order:
  "(\<forall>it \<in> set bd. item.Menu it \<notin> set Object_prototype_keys) \<longrightarrow>
     map Menu (products b bd) =
       sort_key decimal_val (filter is_array_index (first_seen (map item.Menu bd)))
       @ filter (\<lambda>k. \<not> is_array_index k) (first_seen (map item.Menu bd))
     \<and> ((\<forall>it \<in> set bd. \<not> is_array_index (item.Menu it))
          \<longrightarrow> map Menu (products b bd) = first_seen (map item.Menu bd))"
proof
  assume ordinary: "\<forall>it \<in> set bd. item.Menu it \<notin> set Object_prototype_keys"
  then have "filter (\<lambda>n. n \<notin> set Object_prototype_keys) (map item.Menu bd) = map item.Menu bd"
    by (simp add: filter_id_conv)
  then have k: "map fst (productStats b bd) = first_seen (map item.Menu bd)"
    by (simp add: keys_productStats)
  have g: "map Menu (products b bd) =
           sort_key decimal_val (filter is_array_index (first_seen (map item.Menu bd)))
           @ filter (\<lambda>k. \<not> is_array_index k) (first_seen (map item.Menu bd))"
    by (simp add: Menu_products keys_own_keys_order k)
  have "map Menu (products b bd) = first_seen (map item.Menu bd)"
    if "\<forall>it \<in> set bd. \<not> is_array_index (item.Menu it)"
  proof -
    from that have "\<forall>k \<in> set (first_seen (map item.Menu bd)). \<not> is_array_index k"
      by (auto simp: set_first_seen)
    then have "filter is_array_index (first_seen (map item.Menu bd)) = []"
      and "filter (\<lambda>k. \<not> is_array_index k) (first_seen (map item.Menu bd))
            = first_seen (map item.Menu bd)"
      by (simp_all add: filter_empty_conv filter_id_conv)
    with g show ?thesis by simp
  qed
  with g show "map Menu (products b bd) =
       sort_key decimal_val (filter is_array_index (first_seen (map item.Menu bd)))
       @ filter (\<lambda>k. \<not> is_array_index k) (first_seen (map item.Menu bd))
     \<and> ((\<forall>it \<in> set bd. \<not> is_array_index (item.Menu it))
          \<longrightarrow> map Menu (products b bd) = first_seen (map item.Menu bd))"
    by blast
qed

theorem enumeration_order_witness:
  "set (map item.Menu (branchData ex_mixed ''A'')) \<inter> set Object_prototype_keys = {}
   \<and> first_seen (map item.Menu (branchData ex_mixed ''A'')) = [''Nasi'', ''10'', ''Teh'', ''9'']
   \<and> map Menu (products ''A'' (branchData ex_mixed ''A'')) = [''9'', ''10'', ''Nasi'', ''Teh'']
   \<and> first_seen (map item.Menu (branchData ex_menu ''A'')) = [''X'', ''Y'']
   \<and> map Menu (products ''A'' (branchData ex_menu ''A'')) = [''X'', ''Y'']"
  using enumeration_order [of "branchData ex_mixed ''A''" "''A''"]
    enumeration_order [of "branchData ex_menu ''A''" "''A''"]
  by (simp add: pipeline_defs ex_mixed_def ex_menu_def first_seen_def)

section \<open>Conservation of the sums\<close>

text \<open>
  C6 holds for the records whose product name is not a property that every object
  inherits (\<open>conservation_ordinary_names\<close>), and fails otherwise: of the two records
  of branch A below, which together earn 150, sell 2 and make a margin of 15, the one
  named "constructor" reaches no aggregate, and the aggregates sum to 50, 1 and 5.
\<close>

theorem conservation_fails_on_inherited_name:
  "branchData ex_inherited ''A'' = ex_inherited
   \<and> map Menu (products ''A'' (branchData ex_inherited ''A'')) = [''Nasi'']
   \<and> sum_list (map (\<lambda>it. or0 (item.Total it)) (branchData ex_inherited ''A'')) = 150
   \<and> sum_list (map Total (products ''A'' (branchData ex_inherited ''A''))) = 50
   \<and> sum_list (map (\<lambda>it. or0 (item.Qty it)) (branchData ex_inherited ''A'')) = 2
   \<and> sum_list (map Qty (products ''A'' (branchData ex_inherited ''A''))) = 1
   \<and> sum_list (map (\<lambda>it. or0 (item.Margin it)) (branchData ex_inherited ''A'')) = 15
   \<and> sum_list (map Margin (products ''A'' (branchData ex_inherited ''A''))) = 5"
  by (simp add: pipeline_defs ex_inherited_def)

end
